theory Spec2Isabelle
  imports Main
begin

section \<open>Python values and exceptions\<close>

text \<open>
  Shallow embedding of \<^verbatim>\<open>screen_brightness_control/windows.py\<close>.
  Every function that can raise returns \<open>exn + 'a\<close> (\<open>Inl\<close> is the raised exception);
  every function that touches the cache, the management API or the monitors takes the
  \<open>system\<close> state and returns the new one.
\<close>

datatype exn_class =
  LookupError | TypeError | IndexError | ValueError | UnboundLocalError
  | OSError | x_wmi | Exception

datatype exn = Exn (exn_type: exn_class) (exn_str: string)

text \<open>\<^verbatim>\<open>type(e).__name__\<close>.\<close>

fun type_name :: "exn_class \<Rightarrow> string" where
  "type_name LookupError = ''LookupError''"
| "type_name TypeError = ''TypeError''"
| "type_name IndexError = ''IndexError''"
| "type_name ValueError = ''ValueError''"
| "type_name UnboundLocalError = ''UnboundLocalError''"
| "type_name OSError = ''OSError''"
| "type_name x_wmi = ''x_wmi''"
| "type_name Exception = ''Exception''"

text \<open>
  \<^verbatim>\<open>isinstance(e, NameError)\<close>: of the classes above only \<^verbatim>\<open>UnboundLocalError\<close>
  (what Python raises for a local variable read before its assignment) derives from
  \<^verbatim>\<open>NameError\<close>.
\<close>

definition is_NameError :: "exn \<Rightarrow> bool" where
  "is_NameError e = (exn_type e = UnboundLocalError)"

text \<open>\<^verbatim>\<open>isinstance(e, IndexError)\<close>, the test of \<^verbatim>\<open>except IndexError\<close>.\<close>

definition is_IndexError :: "exn \<Rightarrow> bool" where
  "is_IndexError e = (exn_type e = IndexError)"

definition unbound_local :: "string \<Rightarrow> exn" where
  "unbound_local v =
     Exn UnboundLocalError (''local variable '' @ [CHR 0x27] @ v @ [CHR 0x27] @ '' referenced before assignment'')"

subsection \<open>Strings\<close>

text \<open>
  Python strings are modelled as \<open>string\<close>, whose characters are bytes. Case conversion is
  the ASCII part of \<^verbatim>\<open>str.lower\<close> / \<^verbatim>\<open>str.upper\<close>: the letters A to Z; Python also converts
  letters outside ASCII, which this model leaves as they are.
\<close>

definition lower_char :: "char \<Rightarrow> char" where
  "lower_char c =
     (case map_of (zip ''ABCDEFGHIJKLMNOPQRSTUVWXYZ'' ''abcdefghijklmnopqrstuvwxyz'') c of
        Some l \<Rightarrow> l | None \<Rightarrow> c)"

definition upper_char :: "char \<Rightarrow> char" where
  "upper_char c =
     (case map_of (zip ''abcdefghijklmnopqrstuvwxyz'' ''ABCDEFGHIJKLMNOPQRSTUVWXYZ'') c of
        Some u \<Rightarrow> u | None \<Rightarrow> c)"

definition lower :: "string \<Rightarrow> string" where
  "lower s = map lower_char s"

text \<open>\<^verbatim>\<open>s.capitalize()\<close>: first character upper case, the rest lower case.\<close>

definition capitalize :: "string \<Rightarrow> string" where
  "capitalize s = (case s of [] \<Rightarrow> [] | c # cs \<Rightarrow> upper_char c # lower cs)"

text \<open>\<^verbatim>\<open>s.split(sep)\<close> for a one-character separator: never empty, keeps empty pieces.\<close>

fun split_on :: "char \<Rightarrow> string \<Rightarrow> string list" where
  "split_on sep [] = [[]]"
| "split_on sep (c # cs) =
     (if c = sep then [] # split_on sep cs
      else (case split_on sep cs of w # ws \<Rightarrow> (c # w) # ws | [] \<Rightarrow> [[c]]))"

text \<open>\<^verbatim>\<open>str(hex(i)).replace('0x','')\<close> for a byte or any other non-negative integer.\<close>

fun hex_digits :: "nat \<Rightarrow> string" where
  "hex_digits n =
     (if n < 16 then [''0123456789abcdef'' ! n]
      else hex_digits (n div 16) @ [''0123456789abcdef'' ! (n mod 16)])"

declare hex_digits.simps [simp del]

text \<open>How an f-string prints an optional string: \<^verbatim>\<open>None\<close> prints as \<^verbatim>\<open>None\<close>.\<close>

fun fmt :: "string option \<Rightarrow> string" where
  "fmt None = ''None''"
| "fmt (Some s) = s"

section \<open>Data model\<close>

text \<open>The two classes of the module; the \<^verbatim>\<open>'method'\<close> entry of a monitor dictionary.\<close>

datatype channel = WMI | VCP

text \<open>\<^verbatim>\<open>i.__name__\<close>\<close>

fun class_name :: "channel \<Rightarrow> string" where
  "class_name WMI = ''WMI''"
| "class_name VCP = ''VCP''"

text \<open>The dictionary \<^verbatim>\<open>tmp\<close> built by both \<^verbatim>\<open>get_display_info\<close> functions.\<close>

record info =
  name :: string
  model :: string
  model_name :: "string option"
  serial :: string
  manufacturer :: "string option"
  manufacturer_id :: "string option"
  index :: nat
  "method" :: channel
  edid :: "string option"

section \<open>The collaborators and the cache\<close>

text \<open>The calls made on the management API; each may raise.\<close>

datatype wmi_call =
  Connect | WmiMonitorBrightness | WmiMonitorBrightnessMethods
  | WmiMonitorDescriptorMethods | WmiMonitorID

text \<open>
  One monitor as the namespace shows it through \<^verbatim>\<open>WmiMonitorBrightness()\<close> and, at the same
  position, \<^verbatim>\<open>WmiMonitorBrightnessMethods()\<close>.
\<close>

record wmi_monitor =
  InstanceName :: string
  CurrentBrightness :: int
  WmiSetBrightness_raises :: bool

text \<open>
  One \<^verbatim>\<open>WmiMonitorID\<close> object. \<open>SerialNumberID\<close> and \<open>UserFriendlyName\<close> hold the text
  \<^verbatim>\<open>bytes(...).decode()\<close> gives, \<open>None\<close> when that raises.
\<close>

record wmi_monitor_id =
  id_InstanceName :: string
  SerialNumberID :: "string option"
  UserFriendlyName :: "string option"

type_synonym handle = nat

text \<open>
  What the operating system answers for one \<^verbatim>\<open>HMONITOR\<close>:
  \<^verbatim>\<open>GetNumberOfPhysicalMonitorsFromHMONITOR\<close> fails, or it gives a count and
  \<^verbatim>\<open>GetPhysicalMonitorsFromHMONITOR\<close> fails, or the array of physical monitor handles
  (empty when the count is 0).
\<close>

datatype hmonitor = CountFails | GetFails | Physical "handle list"

text \<open>
  The state of the process and the machine.
  \<^item> \<open>c_...\<close>: the entries of \<^verbatim>\<open>__cache__\<close> under the keys this module uses, \<open>None\<close> (or
    \<open>False\<close>) when \<^verbatim>\<open>__cache__.get\<close> raises (missing or expired). \<open>c_windows_monitors_info\<close>
    is keyed by the \<^verbatim>\<open>method\<close> argument stored with it, \<open>c_brightness\<close> by the whole key
    string \<^verbatim>\<open>'vcp_' + edid + '_brightness'\<close>.
  \<^item> \<open>wmi_raises\<close>: which calls on the management API raise; \<open>wmi_monitors\<close>,
    \<open>wmi_descriptors\<close> (instance name and the block
    \<^verbatim>\<open>WmiGetMonitorRawEEdidV1Block(0)[0]\<close>, \<open>None\<close> when that call raises) and
    \<open>sorted_monitor_ids\<close> (the value of \<^verbatim>\<open>sorted(wmi.WmiMonitorID(), key=...)\<close>,
    \<open>None\<close> when the key function raises) are what they return.
  \<^item> \<open>win32api_raises\<close>: whether the \<^verbatim>\<open>win32api\<close> expression that builds
    \<^verbatim>\<open>monitors_sorted\<close> raises.
  \<^item> \<open>monitor_brand_lookup\<close>: \<^verbatim>\<open>_monitor_brand_lookup\<close>, \<open>None\<close> when it raises.
  \<^item> \<open>EnumDisplayMonitors\<close>: the monitors the callback collects, \<open>None\<close> when the call
    returns false; \<open>vcp_feature\<close>: the value \<^verbatim>\<open>GetVCPFeatureAndVCPFeatureReply\<close> reads
    for feature \<^verbatim>\<open>0x10\<close> of a handle, \<open>None\<close> when it returns false.
  \<^item> \<open>destroyed\<close>: the handles passed to \<^verbatim>\<open>DestroyPhysicalMonitor\<close> so far, in call
    order; \<open>acquired\<close>: the handles \<^verbatim>\<open>GetPhysicalMonitorsFromHMONITOR\<close> has opened.
\<close>

record system =
  c_wmi_instance :: bool
  c_wmi_monitor_info :: "info list option"
  c_vcp_monitor_info :: "info list option"
  c_windows_monitors_info :: "string option \<rightharpoonup> info list"
  c_brightness :: "string \<rightharpoonup> int"
  wmi_raises :: "wmi_call \<Rightarrow> bool"
  wmi_monitors :: "wmi_monitor list"
  wmi_descriptors :: "(string \<times> nat list option) list"
  sorted_monitor_ids :: "wmi_monitor_id list option"
  win32api_raises :: bool
  monitor_brand_lookup :: "string \<Rightarrow> (string \<times> string) option"
  EnumDisplayMonitors :: "hmonitor list option"
  vcp_feature :: "handle \<rightharpoonup> int"
  acquired :: "handle list"
  destroyed :: "handle list"

section \<open>Channel A: \<^verbatim>\<open>WMI.get_display_info\<close>\<close>

text \<open>
  \<^verbatim>\<open>_wmi_init\<close>: the cached instance, or a new connection that is then cached. The thread
  check before connecting does not change the result and is left out.
\<close>

definition wmi_init :: "system \<Rightarrow> (exn + unit) \<times> system" where
  "wmi_init s =
     (if c_wmi_instance s then (Inr (), s)
      else if wmi_raises s Connect then (Inl (Exn x_wmi ''''), s)
      else (Inr (), s\<lparr>c_wmi_instance := True\<rparr>))"

text \<open>
  The dictionary comprehension \<^verbatim>\<open>descriptors = {i.InstanceName: ...}\<close> under its
  \<^verbatim>\<open>try ... except: pass\<close>: \<open>None\<close> is the variable left unbound, because the enumeration
  or one block read raised. A later object with the same instance name replaces an
  earlier one.
\<close>

fun raw_blocks :: "(string \<times> nat list option) list \<Rightarrow> (string \<times> nat list) list option" where
  "raw_blocks [] = Some []"
| "raw_blocks ((n, b) # ds) =
     (case b of None \<Rightarrow> None
      | Some blk \<Rightarrow> (case raw_blocks ds of None \<Rightarrow> None | Some r \<Rightarrow> Some ((n, blk) # r)))"

definition descriptors :: "system \<Rightarrow> (string \<rightharpoonup> nat list) option" where
  "descriptors s =
     (if wmi_raises s WmiMonitorDescriptorMethods then None
      else map_option (\<lambda>ps. map_of (rev ps)) (raw_blocks (wmi_descriptors s)))"

text \<open>
  \<^verbatim>\<open>try: edid = ''.join([... for i in descriptors[instance_name][0]])  except: edid = None\<close>:
  the unbound variable and the missing key both end in \<^verbatim>\<open>None\<close>.
\<close>

definition edid_of :: "(string \<rightharpoonup> nat list) option \<Rightarrow> string \<Rightarrow> string option" where
  "edid_of ds instance_name =
     (case ds of None \<Rightarrow> None
      | Some d \<Rightarrow> (case d instance_name of None \<Rightarrow> None
                  | Some block \<Rightarrow> Some (concat (map hex_digits block))))"

text \<open>
  The first lines of the loop body of \<^verbatim>\<open>WMI.get_display_info\<close>: the instance name split at
  backslashes gives \<^verbatim>\<open>serial = instance[-1]\<close> and \<^verbatim>\<open>model = instance[1]\<close>. \<open>None\<close> is the
  \<^verbatim>\<open>IndexError\<close> of \<^verbatim>\<open>instance[1]\<close> when the name has no backslash.
\<close>

definition wmi_instance :: "wmi_monitor \<Rightarrow> (string \<times> string) option" where
  "wmi_instance m =
     (let instance = split_on (CHR 0x5C) (InstanceName m)
      in if length instance < 2 then None else Some (last instance, instance ! 1))"

text \<open>
  The rest of the loop body: brand lookup with its \<^verbatim>\<open>except: manufacturer = None\<close>, the
  identity block, and the dictionary \<^verbatim>\<open>tmp\<close>. \<open>a\<close> is the running index.
\<close>

definition wmi_record ::
  "(string \<Rightarrow> (string \<times> string) option) \<Rightarrow> (string \<rightharpoonup> nat list) option \<Rightarrow>
   wmi_monitor \<Rightarrow> nat \<Rightarrow> info option" where
  "wmi_record lookup ds m a =
     (case wmi_instance m of
        None \<Rightarrow> None
      | Some (serial', model') \<Rightarrow>
          (let man_id = take 3 model';
               (man_id, manufacturer') =
                 (case lookup (take 3 model') of
                    Some (code, brand) \<Rightarrow> (code, Some brand)
                  | None \<Rightarrow> (man_id, None));
               edid' = edid_of ds (InstanceName m)
           in Some \<lparr>name = fmt manufacturer' @ '' '' @ model', model = model',
                    model_name = None, serial = serial', manufacturer = manufacturer',
                    manufacturer_id = Some man_id, index = a, method = WMI, edid = edid'\<rparr>))"

text \<open>
  The loop \<^verbatim>\<open>for m in monitors\<close>. An exception in the body reaches the \<^verbatim>\<open>except: pass\<close>
  around the whole enumeration, which ends the loop with the records appended so far.
\<close>

fun wmi_records ::
  "(string \<Rightarrow> (string \<times> string) option) \<Rightarrow> (string \<rightharpoonup> nat list) option \<Rightarrow>
   wmi_monitor list \<Rightarrow> nat \<Rightarrow> info list" where
  "wmi_records lookup ds [] a = []"
| "wmi_records lookup ds (m # ms) a =
     (case wmi_record lookup ds m a of
        None \<Rightarrow> []
      | Some tmp \<Rightarrow> tmp # wmi_records lookup ds ms (a + 1))"

text \<open>
  \<^verbatim>\<open>WMI.get_display_info()\<close>, called without a display as everywhere in this module.
  The result is the cached list, or the list built under \<^verbatim>\<open>try ... except: pass\<close> and
  then stored.
\<close>

definition WMI_get_display_info :: "system \<Rightarrow> info list \<times> system" where
  "WMI_get_display_info s =
     (case c_wmi_monitor_info s of
        Some info \<Rightarrow> (info, s)
      | None \<Rightarrow>
          (case wmi_init s of
             (Inl e, s1) \<Rightarrow> ([], s1\<lparr>c_wmi_monitor_info := Some []\<rparr>)
           | (Inr u, s1) \<Rightarrow>
               (let info =
                      (if wmi_raises s1 WmiMonitorBrightness then []
                       else wmi_records (monitor_brand_lookup s1) (descriptors s1)
                              (wmi_monitors s1) 0)
                in (info, s1\<lparr>c_wmi_monitor_info := Some info\<rparr>))))"

section \<open>Channel B: \<^verbatim>\<open>VCP.get_display_info\<close>\<close>

text \<open>
  The first lines of the loop body of \<^verbatim>\<open>VCP.get_display_info\<close>: the serial number and the
  two words of the friendly name, NUL characters removed, the first word in lower case and
  capitalised. \<open>None\<close> is an exception: a text that does not decode, or a friendly name that
  does not split into exactly two words at spaces.
\<close>

definition vcp_identity :: "wmi_monitor_id \<Rightarrow> (string \<times> string \<times> string) option" where
  "vcp_identity monitor =
     (case SerialNumberID monitor of
        None \<Rightarrow> None
      | Some serial_text \<Rightarrow>
          (case UserFriendlyName monitor of
             None \<Rightarrow> None
           | Some name_text \<Rightarrow>
               (case split_on (CHR '' '') (filter (\<lambda>c. c \<noteq> CHR 0x00) name_text) of
                  [manufacturer', model'] \<Rightarrow>
                    Some (filter (\<lambda>c. c \<noteq> CHR 0x00) serial_text,
                          capitalize (lower manufacturer'), model')
                | _ \<Rightarrow> None)))"

text \<open>
  The rest of the loop body: brand lookup with its \<^verbatim>\<open>except: man_id = None\<close>, the identity
  block, and the dictionary \<^verbatim>\<open>tmp\<close>. \<open>None\<close> is an exception reaching the inner
  \<^verbatim>\<open>except: pass\<close>, which skips the monitor and keeps the index.
\<close>

definition vcp_record ::
  "(string \<Rightarrow> (string \<times> string) option) \<Rightarrow> (string \<rightharpoonup> nat list) option \<Rightarrow>
   wmi_monitor_id \<Rightarrow> nat \<Rightarrow> info option" where
  "vcp_record lookup ds monitor a =
     (case vcp_identity monitor of
        None \<Rightarrow> None
      | Some (serial', manufacturer0, model') \<Rightarrow>
          (let (man_id, manufacturer') =
                 (case lookup manufacturer0 of
                    Some (code, brand) \<Rightarrow> (Some code, brand)
                  | None \<Rightarrow> (None, manufacturer0));
               edid' = edid_of ds (id_InstanceName monitor)
           in Some \<lparr>name = manufacturer' @ '' '' @ model', model = model',
                    model_name = None, serial = serial',
                    manufacturer = Some manufacturer', manufacturer_id = man_id,
                    index = a, method = VCP, edid = edid'\<rparr>))"

fun vcp_records ::
  "(string \<Rightarrow> (string \<times> string) option) \<Rightarrow> (string \<rightharpoonup> nat list) option \<Rightarrow>
   wmi_monitor_id list \<Rightarrow> nat \<Rightarrow> info list" where
  "vcp_records lookup ds [] a = []"
| "vcp_records lookup ds (monitor # monitors) a =
     (case vcp_record lookup ds monitor a of
        None \<Rightarrow> vcp_records lookup ds monitors a
      | Some tmp \<Rightarrow> tmp # vcp_records lookup ds monitors (a + 1))"

text \<open>
  \<^verbatim>\<open>VCP.get_display_info()\<close>, called without a display as everywhere in this module.
  \<^verbatim>\<open>monitors_sorted\<close> is built first, then \<^verbatim>\<open>_wmi_init()\<close> is called, then the
  \<^verbatim>\<open>WmiMonitorID\<close> objects are read and sorted; any exception leaves the list empty.
\<close>

definition VCP_get_display_info :: "system \<Rightarrow> info list \<times> system" where
  "VCP_get_display_info s =
     (case c_vcp_monitor_info s of
        Some info \<Rightarrow> (info, s)
      | None \<Rightarrow>
          (if win32api_raises s then ([], s\<lparr>c_vcp_monitor_info := Some []\<rparr>)
           else
             (case wmi_init s of
                (Inl e, s1) \<Rightarrow> ([], s1\<lparr>c_vcp_monitor_info := Some []\<rparr>)
              | (Inr u, s1) \<Rightarrow>
                  (let info =
                         (if wmi_raises s1 WmiMonitorID then []
                          else (case sorted_monitor_ids s1 of
                                  None \<Rightarrow> []
                                | Some monitors \<Rightarrow>
                                    vcp_records (monitor_brand_lookup s1) (descriptors s1)
                                      monitors 0))
                   in (info, s1\<lparr>c_vcp_monitor_info := Some info\<rparr>)))))"

section \<open>\<^verbatim>\<open>list_monitors_info\<close> and \<^verbatim>\<open>list_monitors\<close>\<close>

text \<open>
  One pass of the inner loop body: \<^verbatim>\<open>if i['edid'] not in edids: edids.append(i['edid']);
  info.append(i)\<close>. The accumulator is the pair \<^verbatim>\<open>(info, edids)\<close>.
\<close>

definition report_once ::
  "info list \<times> string option list \<Rightarrow> info \<Rightarrow> info list \<times> string option list" where
  "report_once acc i =
     (if edid i \<notin> set (snd acc) then (fst acc @ [i], snd acc @ [edid i]) else acc)"

text \<open>\<^verbatim>\<open>m.get_display_info()\<close> for a class \<open>m\<close>.\<close>

fun get_display_info :: "channel \<Rightarrow> system \<Rightarrow> info list \<times> system" where
  "get_display_info WMI s = WMI_get_display_info s"
| "get_display_info VCP s = VCP_get_display_info s"

text \<open>The loop \<^verbatim>\<open>for m in methods\<close> with its inner loop over the channel's records.\<close>

fun merge_methods ::
  "channel list \<Rightarrow> info list \<times> string option list \<Rightarrow> system \<Rightarrow>
   (info list \<times> string option list) \<times> system" where
  "merge_methods [] acc s = (acc, s)"
| "merge_methods (m # ms) acc s =
     (case get_display_info m s of
        (records, s1) \<Rightarrow> merge_methods ms (foldl report_once acc records) s1)"

definition list_monitors_info :: "string option \<Rightarrow> system \<Rightarrow> (exn + info list) \<times> system" where
  "list_monitors_info method_arg s =
     (case c_windows_monitors_info s method_arg of
        Some cached \<Rightarrow> (Inr cached, s)
      | None \<Rightarrow>
          (let methods =
                 (case method_arg of
                    None \<Rightarrow> [WMI, VCP]
                  | Some m \<Rightarrow> filter (\<lambda>i. lower (class_name i) = lower m) [WMI, VCP])
           in if method_arg \<noteq> None \<and> methods = []
              then (Inl (Exn ValueError
                      (''method kwarg must be '' @ [CHR 0x27] @ ''wmi'' @ [CHR 0x27] @ '' or ''
                        @ [CHR 0x27] @ ''vcp'' @ [CHR 0x27])), s)
              else (case merge_methods methods ([], []) s of
                      ((info, edids), s1) \<Rightarrow>
                        (Inr info,
                         s1\<lparr>c_windows_monitors_info :=
                              (c_windows_monitors_info s1)(method_arg \<mapsto> info)\<rparr>))))"

definition list_monitors :: "string option \<Rightarrow> system \<Rightarrow> (exn + string list) \<times> system" where
  "list_monitors method_arg s =
     (case list_monitors_info method_arg s of
        (Inl e, s1) \<Rightarrow> (Inl e, s1)
      | (Inr infos, s1) \<Rightarrow> (Inr (map name infos), s1))"

section \<open>\<^verbatim>\<open>filter_monitors\<close>\<close>

text \<open>The \<^verbatim>\<open>display\<close> argument: \<^verbatim>\<open>None\<close>, an integer, a string, or a value of another type.\<close>

datatype display_arg = NoDisplay | IntDisplay int | StrDisplay string | OtherDisplay

text \<open>
  Modelled from the spec: \<^verbatim>\<open>filter_monitors\<close> is imported from the package and its source
  is not part of this module. Section 4.4 of the specification: the haystack is first
  restricted to the channel constraint; no query returns it unchanged; an integer returns
  the single record at that position and signals \<^verbatim>\<open>IndexError\<close> out of range; a string is
  compared case-insensitively with \<^verbatim>\<open>serial\<close>, \<^verbatim>\<open>name\<close>, \<^verbatim>\<open>model\<close> and the identity block in this
  order, the first field that matches any record wins and all records matching on it are
  returned, and no match signals \<^verbatim>\<open>LookupError\<close>; any other type signals \<^verbatim>\<open>TypeError\<close>.
  The exception texts are not given by the specification.
\<close>

definition restrict_method :: "string option \<Rightarrow> info list \<Rightarrow> info list" where
  "restrict_method method_arg haystack =
     (case method_arg of
        None \<Rightarrow> haystack
      | Some m \<Rightarrow> filter (\<lambda>i. lower (class_name (method i)) = lower m) haystack)"

definition matches_on :: "(info \<Rightarrow> string option) \<Rightarrow> string \<Rightarrow> info list \<Rightarrow> info list" where
  "matches_on field query haystack =
     filter (\<lambda>i. case field i of None \<Rightarrow> False | Some v \<Rightarrow> lower v = lower query) haystack"

fun first_match :: "(info \<Rightarrow> string option) list \<Rightarrow> string \<Rightarrow> info list \<Rightarrow> exn + info list" where
  "first_match [] query haystack = Inl (Exn LookupError ''display not found'')"
| "first_match (field # others) query haystack =
     (if matches_on field query haystack \<noteq> [] then Inr (matches_on field query haystack)
      else first_match others query haystack)"

fun filter_haystack :: "display_arg \<Rightarrow> info list \<Rightarrow> exn + info list" where
  "filter_haystack NoDisplay haystack = Inr haystack"
| "filter_haystack (IntDisplay i) haystack =
     (if 0 \<le> i \<and> i < int (length haystack) then Inr [haystack ! nat i]
      else Inl (Exn IndexError ''list index out of range''))"
| "filter_haystack (StrDisplay query) haystack =
     first_match [\<lambda>i. Some (serial i), \<lambda>i. Some (name i), \<lambda>i. Some (model i), edid]
       query haystack"
| "filter_haystack OtherDisplay haystack =
     Inl (Exn TypeError ''display kwarg must be int or str'')"

text \<open>
  Modelled from the spec: the call \<^verbatim>\<open>filter_monitors(display=..., haystack=..., method=...)\<close>.
  Without a haystack the monitors are those of \<^verbatim>\<open>list_monitors_info(method)\<close>, whose
  \<^verbatim>\<open>ValueError\<close> for an unknown method is the one the docstrings of \<^verbatim>\<open>set_brightness\<close> and
  \<^verbatim>\<open>get_brightness\<close> announce.
\<close>

definition filter_monitors ::
  "display_arg \<Rightarrow> info list option \<Rightarrow> string option \<Rightarrow> system \<Rightarrow> (exn + info list) \<times> system" where
  "filter_monitors display haystack method_arg s =
     (case (case haystack of
              Some h \<Rightarrow> (Inr h, s)
            | None \<Rightarrow> list_monitors_info method_arg s) of
        (Inl e, s1) \<Rightarrow> (Inl e, s1)
      | (Inr monitors, s1) \<Rightarrow> (filter_haystack display (restrict_method method_arg monitors), s1))"

section \<open>Channel A: brightness\<close>

text \<open>
  What a channel's \<^verbatim>\<open>get_brightness\<close> or \<^verbatim>\<open>set_brightness\<close> returns: \<^verbatim>\<open>None\<close>, one integer, or
  a list of integers.
\<close>

datatype bval = BNone | BInt int | BList "int list"

text \<open>\<^verbatim>\<open>values[0] if len(values)==1 else values\<close>\<close>

definition one_or_list :: "int list \<Rightarrow> bval" where
  "one_or_list vs = (case vs of [v] \<Rightarrow> BInt v | _ \<Rightarrow> BList vs)"

text \<open>\<^verbatim>\<open>[xs[i] for i in indexes]\<close>: \<^verbatim>\<open>IndexError\<close> at the first index out of range.\<close>

fun pick :: "nat list \<Rightarrow> 'a list \<Rightarrow> exn + 'a list" where
  "pick [] xs = Inr []"
| "pick (i # is) xs =
     (if i < length xs
      then (case pick is xs of Inl e \<Rightarrow> Inl e | Inr r \<Rightarrow> Inr (xs ! i # r))
      else Inl (Exn IndexError ''list index out of range''))"

text \<open>
  The lines \<^verbatim>\<open>if display!=None: indexes = [i['index'] for i in filter_monitors(display=display,
  method='wmi')]; brightness_method = [brightness_method[i] for i in indexes]\<close> shared by
  \<^verbatim>\<open>WMI.set_brightness\<close> and \<^verbatim>\<open>WMI.get_brightness\<close>.
\<close>

definition wmi_select :: "display_arg \<Rightarrow> 'a list \<Rightarrow> system \<Rightarrow> (exn + 'a list) \<times> system" where
  "wmi_select display brightness_method s =
     (if display = NoDisplay then (Inr brightness_method, s)
      else (case filter_monitors display None (Some ''wmi'') s of
              (Inl e, s1) \<Rightarrow> (Inl e, s1)
            | (Inr monitors, s1) \<Rightarrow> (pick (map index monitors) brightness_method, s1)))"

definition WMI_get_brightness :: "display_arg \<Rightarrow> system \<Rightarrow> (exn + bval) \<times> system" where
  "WMI_get_brightness display s =
     (case wmi_init s of
        (Inl e, s1) \<Rightarrow> (Inl e, s1)
      | (Inr u, s1) \<Rightarrow>
          (if wmi_raises s1 WmiMonitorBrightness then (Inl (Exn x_wmi ''''), s1)
           else (case wmi_select display (wmi_monitors s1) s1 of
                   (Inl e, s2) \<Rightarrow> (Inl e, s2)
                 | (Inr brightness_method, s2) \<Rightarrow>
                     (Inr (one_or_list (map CurrentBrightness brightness_method)), s2))))"

text \<open>
  The loop \<^verbatim>\<open>for method in brightness_method: method.WmiSetBrightness(value,0)\<close> over the
  positions of the selected monitors. A call that raises ends the loop; the earlier writes
  stay. Modelled from the spec (section 8, a provider that echoes back the last written
  value): a write that does not raise sets \<open>CurrentBrightness\<close> to the value.
\<close>

fun wmi_set_all :: "int \<Rightarrow> nat list \<Rightarrow> system \<Rightarrow> (exn + unit) \<times> system" where
  "wmi_set_all v [] s = (Inr (), s)"
| "wmi_set_all v (j # js) s =
     (if WmiSetBrightness_raises (wmi_monitors s ! j) then (Inl (Exn x_wmi ''''), s)
      else wmi_set_all v js
             (s\<lparr>wmi_monitors := (wmi_monitors s)[j := (wmi_monitors s ! j)\<lparr>CurrentBrightness := v\<rparr>]\<rparr>))"

definition WMI_set_brightness ::
  "int \<Rightarrow> display_arg \<Rightarrow> bool \<Rightarrow> system \<Rightarrow> (exn + bval) \<times> system" where
  "WMI_set_brightness v display no_return s =
     (case wmi_init s of
        (Inl e, s1) \<Rightarrow> (Inl e, s1)
      | (Inr u, s1) \<Rightarrow>
          (if wmi_raises s1 WmiMonitorBrightnessMethods then (Inl (Exn x_wmi ''''), s1)
           else (case wmi_select display [0..<length (wmi_monitors s1)] s1 of
                   (Inl e, s2) \<Rightarrow> (Inl e, s2)
                 | (Inr brightness_method, s2) \<Rightarrow>
                     (case wmi_set_all v brightness_method s2 of
                        (Inl e, s3) \<Rightarrow> (Inl e, s3)
                      | (Inr u, s3) \<Rightarrow>
                          (if \<not> no_return then WMI_get_brightness display s3
                           else (Inr BNone, s3))))))"

section \<open>Channel B: the generator \<^verbatim>\<open>VCP.iter_physical_monitors\<close>\<close>

text \<open>
  The generator object between two \<^verbatim>\<open>next\<close> calls: not started; suspended at
  \<^verbatim>\<open>yield item.handle\<close> with the yielded handle, the rest of \<^verbatim>\<open>physical_array\<close> and the rest of
  \<^verbatim>\<open>monitors\<close>; or finished.
\<close>

datatype generator = NotStarted | Suspended handle "handle list" "hmonitor list" | Finished

datatype gen_event = Yield handle | StopIteration | Raise exn

text \<open>
  The generator's code from the head of the inner loop \<^verbatim>\<open>for item in physical_array\<close> up to
  the next \<^verbatim>\<open>yield\<close>, the end of the function, or a \<^verbatim>\<open>raise WinError()\<close>.
\<close>

fun run_to_yield :: "handle list \<Rightarrow> hmonitor list \<Rightarrow> system \<Rightarrow> gen_event \<times> generator \<times> system" where
  "run_to_yield (h # items) monitors s = (Yield h, Suspended h items monitors, s)"
| "run_to_yield [] [] s = (StopIteration, Finished, s)"
| "run_to_yield [] (CountFails # monitors) s = (Raise (Exn OSError ''''), Finished, s)"
| "run_to_yield [] (GetFails # monitors) s = (Raise (Exn OSError ''''), Finished, s)"
| "run_to_yield [] (Physical physical_array # monitors) s =
     run_to_yield physical_array monitors (s\<lparr>acquired := acquired s @ physical_array\<rparr>)"

text \<open>
  \<^verbatim>\<open>next(generator)\<close>. The first call runs \<^verbatim>\<open>EnumDisplayMonitors\<close>; a call on a suspended
  generator resumes after the \<^verbatim>\<open>yield\<close>, where \<^verbatim>\<open>DestroyPhysicalMonitor(item.handle)\<close> is the
  next statement. When \<^verbatim>\<open>EnumDisplayMonitors\<close> returns false the code evaluates
  \<^verbatim>\<open>WinError('EnumDisplayMonitors failed')\<close>, which takes the string as the error code and
  passes it to \<^verbatim>\<open>FormatError\<close>: that call raises \<^verbatim>\<open>TypeError\<close> (its text depends on the
  interpreter) before an \<^verbatim>\<open>OSError\<close> is built. \<^verbatim>\<open>WinError()\<close> without arguments, in the loop,
  gives the \<^verbatim>\<open>OSError\<close> of the last error.
\<close>

fun gen_next :: "generator \<Rightarrow> system \<Rightarrow> gen_event \<times> generator \<times> system" where
  "gen_next NotStarted s =
     (case EnumDisplayMonitors s of
        None \<Rightarrow> (Raise (Exn TypeError ''an integer is required (got type str)''), Finished, s)
      | Some monitors \<Rightarrow> run_to_yield [] monitors s)"
| "gen_next (Suspended h items monitors) s =
     run_to_yield items monitors (s\<lparr>destroyed := destroyed s @ [h]\<rparr>)"
| "gen_next Finished s = (StopIteration, Finished, s)"

text \<open>
  \<^verbatim>\<open>generator.close()\<close>, what Python does with the generator of a \<^verbatim>\<open>for\<close> loop that is left
  by \<^verbatim>\<open>break\<close> or by an exception: \<^verbatim>\<open>GeneratorExit\<close> is raised at the \<^verbatim>\<open>yield\<close>; the function
  has no \<^verbatim>\<open>try ... finally\<close>, so no statement of it runs.
\<close>

definition gen_close :: "generator \<Rightarrow> system \<Rightarrow> generator \<times> system" where
  "gen_close g s = (Finished, s)"

text \<open>What the body of a \<^verbatim>\<open>for\<close> loop does with one item: go on, \<^verbatim>\<open>break\<close>, or raise.\<close>

datatype 'a flow = Continue 'a | Break 'a | Throw exn

fun monitors_weight :: "hmonitor list \<Rightarrow> nat" where
  "monitors_weight [] = 0"
| "monitors_weight (Physical arr # ms) = Suc (length arr) + monitors_weight ms"
| "monitors_weight (m # ms) = Suc (monitors_weight ms)"

fun gen_weight :: "generator \<Rightarrow> system \<Rightarrow> nat" where
  "gen_weight NotStarted s =
     Suc (Suc (case EnumDisplayMonitors s of None \<Rightarrow> 0 | Some ms \<Rightarrow> monitors_weight ms))"
| "gen_weight (Suspended h items ms) s = Suc (length items + monitors_weight ms)"
| "gen_weight Finished s = 0"

lemma run_to_yield_weight:
  "run_to_yield items ms s = (Yield h, g, s') \<Longrightarrow>
     gen_weight g s'' < Suc (length items + monitors_weight ms)"
  by (induction items ms s rule: run_to_yield.induct) auto

lemma gen_next_weight:
  assumes "gen_next g s = (Yield h, g', s')"
  shows "gen_weight g' s'' < gen_weight g s"
proof (cases g)
  case NotStarted
  with assms obtain ms where ms: "EnumDisplayMonitors s = Some ms"
    and run: "run_to_yield [] ms s = (Yield h, g', s')"
    by (auto split: option.splits)
  from run_to_yield_weight [OF run, of s''] ms NotStarted show ?thesis by simp
next
  case (Suspended h0 items ms)
  with assms have run:
    "run_to_yield items ms (s\<lparr>destroyed := destroyed s @ [h0]\<rparr>) = (Yield h, g', s')"
    by simp
  from run_to_yield_weight [OF run, of s''] Suspended show ?thesis by simp
next
  case Finished
  with assms show ?thesis by simp
qed

text \<open>
  \<^verbatim>\<open>for m in VCP.iter_physical_monitors(): body\<close>, with the loop's variables in \<open>acc\<close>.
  The loop ends when the generator is exhausted or raises, and when the body breaks or
  raises; in the last two cases the generator is closed where it is suspended.
\<close>

function for_physical_monitors ::
  "(handle \<Rightarrow> 'a \<Rightarrow> system \<Rightarrow> 'a flow \<times> system) \<Rightarrow> generator \<Rightarrow> 'a \<Rightarrow> system \<Rightarrow>
   (exn + 'a) \<times> generator \<times> system" where
  "for_physical_monitors body g acc s =
     (case gen_next g s of
        (StopIteration, g1, s1) \<Rightarrow> (Inr acc, g1, s1)
      | (Raise e, g1, s1) \<Rightarrow> (Inl e, g1, s1)
      | (Yield m, g1, s1) \<Rightarrow>
          (case body m acc s1 of
             (Continue acc', s2) \<Rightarrow> for_physical_monitors body g1 acc' s2
           | (Break acc', s2) \<Rightarrow> (case gen_close g1 s2 of (g3, s3) \<Rightarrow> (Inr acc', g3, s3))
           | (Throw e, s2) \<Rightarrow> (case gen_close g1 s2 of (g3, s3) \<Rightarrow> (Inl e, g3, s3))))"
  by pat_completeness auto
termination
  by (relation "measure (\<lambda>(body, g, acc, s). gen_weight g s)")
     (auto dest: gen_next_weight [OF sym])

declare for_physical_monitors.simps [simp del]

subsection \<open>Observing the generator\<close>

text \<open>
  The handles a generator yields when it is iterated to its end: those of the monitors up
  to the first one for which an operating system call fails. \<open>pending\<close> are the handles a
  generator in a given state has still to yield and \<open>held\<close> the handle it is suspended at,
  which it has yielded and not yet passed to \<^verbatim>\<open>DestroyPhysicalMonitor\<close>.
\<close>

fun yielded_handles :: "hmonitor list \<Rightarrow> handle list" where
  "yielded_handles [] = []"
| "yielded_handles (Physical physical_array # monitors) =
     physical_array @ yielded_handles monitors"
| "yielded_handles (CountFails # monitors) = []"
| "yielded_handles (GetFails # monitors) = []"

fun pending :: "generator \<Rightarrow> system \<Rightarrow> handle list" where
  "pending NotStarted s =
     (case EnumDisplayMonitors s of None \<Rightarrow> [] | Some monitors \<Rightarrow> yielded_handles monitors)"
| "pending (Suspended h items monitors) s = items @ yielded_handles monitors"
| "pending Finished s = []"

fun held :: "generator \<Rightarrow> handle list" where
  "held (Suspended h items monitors) = [h]"
| "held g = []"

text \<open>
  Two loop bodies that only record the handles they are given:
  \<^verbatim>\<open>for m in VCP.iter_physical_monitors(): seen.append(m); break\<close> and the same without
  \<^verbatim>\<open>break\<close>.
\<close>

definition stop_at_first :: "handle \<Rightarrow> handle list \<Rightarrow> system \<Rightarrow> handle list flow \<times> system" where
  "stop_at_first m seen s = (Break (seen @ [m]), s)"

definition collect_handles :: "handle \<Rightarrow> handle list \<Rightarrow> system \<Rightarrow> handle list flow \<times> system" where
  "collect_handles m seen s = (Continue (seen @ [m]), s)"

section \<open>Channel B: brightness\<close>

text \<open>
  The key expression \<^verbatim>\<open>'vcp_'+all_monitors[count]['edid']+'_brightness'\<close>. \<open>all_monitors\<close> is
  \<open>None\<close> while the local variable is unbound (it is assigned only under
  \<^verbatim>\<open>if display!=None\<close>); the index can be out of range; the identity block can be \<^verbatim>\<open>None\<close>,
  which a string cannot be added to.
\<close>

definition brightness_key :: "info list option \<Rightarrow> nat \<Rightarrow> exn + string" where
  "brightness_key all_monitors count =
     (case all_monitors of
        None \<Rightarrow> Inl (unbound_local ''all_monitors'')
      | Some monitors \<Rightarrow>
          (if count < length monitors
           then (case edid (monitors ! count) of
                   None \<Rightarrow> Inl (Exn TypeError
                             (''can only concatenate str (not '' @ [CHR 0x22] @ ''NoneType''
                               @ [CHR 0x22] @ '') to str''))
                 | Some e \<Rightarrow> Inr (''vcp_'' @ e @ ''_brightness''))
           else Inl (Exn IndexError ''list index out of range'')))"

text \<open>
  The body of the loop of \<^verbatim>\<open>VCP.get_brightness\<close>; the accumulator is \<^verbatim>\<open>(count, values)\<close>.
  The first \<^verbatim>\<open>try\<close> has a bare \<^verbatim>\<open>except\<close>: a cache miss and an exception of the key
  expression both lead to the feature read. The second \<^verbatim>\<open>try\<close> evaluates the key expression
  again for \<^verbatim>\<open>__cache__.store\<close> and has \<^verbatim>\<open>except IndexError\<close> only.
\<close>

definition get_brightness_body ::
  "display_arg \<Rightarrow> info list option \<Rightarrow> nat list \<Rightarrow> handle \<Rightarrow> nat \<times> int list \<Rightarrow> system \<Rightarrow>
   (nat \<times> int list) flow \<times> system" where
  "get_brightness_body display all_monitors indexes m acc s =
     (case acc of (count, values) \<Rightarrow>
        (let v = (case brightness_key all_monitors count of
                    Inl e \<Rightarrow> vcp_feature s m
                  | Inr key \<Rightarrow> (case c_brightness s key of
                                 Some cached \<Rightarrow> Some cached
                               | None \<Rightarrow> vcp_feature s m))
         in case v of
              None \<Rightarrow> (Continue (count + 1, values), s)
            | Some x \<Rightarrow>
                (if display = NoDisplay \<or> count \<in> set indexes
                 then (case brightness_key all_monitors count of
                         Inl e \<Rightarrow>
                           (if is_IndexError e then (Continue (count + 1, values @ [x]), s)
                            else (Throw e, s))
                       | Inr key \<Rightarrow>
                           (Continue (count + 1, values @ [x]),
                            s\<lparr>c_brightness := (c_brightness s)(key \<mapsto> x)\<rparr>))
                 else (Continue (count + 1, values), s))))"

text \<open>
  \<^verbatim>\<open>VCP.get_brightness(display)\<close>. An exception that leaves the loop leaves the function.
\<close>

definition VCP_get_brightness :: "display_arg \<Rightarrow> system \<Rightarrow> (exn + bval) \<times> system" where
  "VCP_get_brightness display s =
     (case (if display \<noteq> NoDisplay
            then (case VCP_get_display_info s of
                    (all_monitors, s1) \<Rightarrow>
                      (case filter_monitors display (Some all_monitors) None s1 of
                         (Inl e, s2) \<Rightarrow> (Inl e, s2)
                       | (Inr monitors, s2) \<Rightarrow>
                           (Inr (Some all_monitors, map index monitors), s2)))
            else (Inr (None, []), s)) of
        (Inl e, s2) \<Rightarrow> (Inl e, s2)
      | (Inr (all_monitors, indexes), s2) \<Rightarrow>
          (case for_physical_monitors (get_brightness_body display all_monitors indexes)
                  NotStarted (0, []) s2 of
             (Inl e, g, s3) \<Rightarrow> (Inl e, s3)
           | (Inr (count, values), g, s3) \<Rightarrow>
               (if values = [] then (Inr BNone, s3) else (Inr (one_or_list values), s3))))"

text \<open>
  The body of the loop of \<^verbatim>\<open>VCP.set_brightness\<close>; the accumulator is \<^verbatim>\<open>loops\<close>. The result of
  \<^verbatim>\<open>SetVCPFeature\<close> is not looked at. Modelled from the spec (section 8, a provider that
  echoes back the last written value): a monitor that answers the feature read stores
  \<^verbatim>\<open>DWORD(value)\<close>, the value modulo \<open>2 ^ 32\<close>.
\<close>

definition SetVCPFeature :: "handle \<Rightarrow> int \<Rightarrow> system \<Rightarrow> system" where
  "SetVCPFeature m v s =
     (if m \<in> dom (vcp_feature s)
      then s\<lparr>vcp_feature := (vcp_feature s)(m \<mapsto> v mod 2 ^ 32)\<rparr> else s)"

definition set_brightness_body ::
  "int \<Rightarrow> display_arg \<Rightarrow> nat list \<Rightarrow> handle \<Rightarrow> nat \<Rightarrow> system \<Rightarrow> nat flow \<times> system" where
  "set_brightness_body v display displays m loops s =
     (if display = NoDisplay \<or> loops \<in> set displays
      then (Continue (loops + 1), SetVCPFeature m v s)
      else (Continue (loops + 1), s))"

definition VCP_set_brightness ::
  "int \<Rightarrow> display_arg \<Rightarrow> bool \<Rightarrow> system \<Rightarrow> (exn + bval) \<times> system" where
  "VCP_set_brightness v display no_return s =
     (case (if display \<noteq> NoDisplay
            then (case filter_monitors display None (Some ''vcp'') s of
                    (Inl e, s1) \<Rightarrow> (Inl e, s1)
                  | (Inr monitors, s1) \<Rightarrow> (Inr (map index monitors), s1))
            else (Inr [], s)) of
        (Inl e, s1) \<Rightarrow> (Inl e, s1)
      | (Inr displays, s1) \<Rightarrow>
          (case for_physical_monitors (set_brightness_body v display displays)
                  NotStarted 0 s1 of
             (Inl e, g, s2) \<Rightarrow> (Inl e, s2)
           | (Inr loops, g, s2) \<Rightarrow>
               (if \<not> no_return then VCP_get_brightness display s2 else (Inr BNone, s2))))"

section \<open>The top level: \<^verbatim>\<open>set_brightness\<close> and \<^verbatim>\<open>get_brightness\<close>\<close>

datatype meta_method = Get | Set

text \<open>
  \<^verbatim>\<open>getattr(m['method'], meta_method+'_brightness')(*args, display = m['serial'], **kwargs)\<close>.
  For \<^verbatim>\<open>'set'\<close> the positional argument is the value and the keyword arguments are taken to
  be \<^verbatim>\<open>no_return\<close>, the only one the two classes accept besides \<^verbatim>\<open>display\<close>; for \<^verbatim>\<open>'get'\<close>
  there are none.
\<close>

fun brightness_method :: "meta_method \<Rightarrow> int \<Rightarrow> bool \<Rightarrow> info \<Rightarrow> system \<Rightarrow> (exn + bval) \<times> system" where
  "brightness_method Get v no_return m s =
     (case method m of
        WMI \<Rightarrow> WMI_get_brightness (StrDisplay (serial m)) s
      | VCP \<Rightarrow> VCP_get_brightness (StrDisplay (serial m)) s)"
| "brightness_method Set v no_return m s =
     (case method m of
        WMI \<Rightarrow> WMI_set_brightness v (StrDisplay (serial m)) no_return s
      | VCP \<Rightarrow> VCP_set_brightness v (StrDisplay (serial m)) no_return s)"

text \<open>An entry of \<^verbatim>\<open>errors\<close>: \<^verbatim>\<open>[label, type(e).__name__, e]\<close>.\<close>

type_synonym error_entry = "string \<times> string \<times> exn"

text \<open>\<^verbatim>\<open>[f"{m['name']} ({m['serial']})", type(e).__name__, e]\<close>\<close>

definition record_error :: "info \<Rightarrow> exn \<Rightarrow> error_entry" where
  "record_error m e = (name m @ '' ('' @ serial m @ '')'', type_name (exn_type e), e)"

text \<open>
  The loop \<^verbatim>\<open>for m in monitors\<close> of \<^verbatim>\<open>__set_and_get_brightness\<close>, for any per-monitor call:
  the result is appended to \<^verbatim>\<open>output\<close>, or \<^verbatim>\<open>None\<close> is appended and the exception recorded.
\<close>

fun dispatch ::
  "(info \<Rightarrow> system \<Rightarrow> (exn + bval) \<times> system) \<Rightarrow> info list \<Rightarrow>
   bval list \<times> error_entry list \<Rightarrow> system \<Rightarrow> (bval list \<times> error_entry list) \<times> system" where
  "dispatch call [] acc s = (acc, s)"
| "dispatch call (m # monitors) (output, errors) s =
     (case call m s of
        (Inr v, s1) \<Rightarrow> dispatch call monitors (output @ [v], errors) s1
      | (Inl e, s1) \<Rightarrow>
          dispatch call monitors (output @ [BNone], errors @ [record_error m e]) s1)"

text \<open>
  Modelled from the spec: \<^verbatim>\<open>flatten_list\<close> is imported from the package and its source is
  not part of this module. Section 4.5 of the specification: it flattens one level of
  nested list results. A slot that is \<^verbatim>\<open>None\<close> stays one \<^verbatim>\<open>None\<close> element.
\<close>

fun flatten_item :: "bval \<Rightarrow> int option list" where
  "flatten_item BNone = [None]"
| "flatten_item (BInt v) = [Some v]"
| "flatten_item (BList vs) = map Some vs"

definition flatten_list :: "bval list \<Rightarrow> int option list" where
  "flatten_list thick_list = concat (map flatten_item thick_list)"

text \<open>What the top level returns: \<^verbatim>\<open>output[0] if len(output)==1 else output\<close>.\<close>

datatype result = Single "int option" | Several "int option list"

definition single_or_several :: "int option list \<Rightarrow> result" where
  "single_or_several output = (case output of [v] \<Rightarrow> Single v | _ \<Rightarrow> Several output)"

text \<open>
  The end of \<^verbatim>\<open>__set_and_get_brightness\<close>: the message built from \<^verbatim>\<open>errors\<close>, one line
  \<^verbatim>\<open>f'\t{e[0]} -> {e[1]}: {e[2]}\n'\<close> for each entry, raised as \<^verbatim>\<open>Exception(msg)\<close>.
\<close>

definition error_line :: "error_entry \<Rightarrow> string" where
  "error_line e =
     (case e of (label, kind, ex) \<Rightarrow>
        [CHR 0x09] @ label @ '' -> '' @ kind @ '': '' @ exn_str ex @ [CHR 0x0A])"

definition failure_message :: "error_entry list \<Rightarrow> string" where
  "failure_message errors =
     (let msg = [CHR 0x0A] @ concat (map error_line errors)
      in if msg = [CHR 0x0A]
         then msg @ [CHR 0x09] @ ''no valid output was received from brightness methods''
         else msg)"

definition set_and_get_brightness ::
  "meta_method \<Rightarrow> int \<Rightarrow> bool \<Rightarrow> display_arg \<Rightarrow> string option \<Rightarrow> system \<Rightarrow>
   (exn + result) \<times> system" where
  "set_and_get_brightness meta v no_return display method_arg s =
     (case filter_monitors display None method_arg s of
        (Inl e, s1) \<Rightarrow>
          (Inl (Exn Exception (failure_message [([], type_name (exn_type e), e)])), s1)
      | (Inr monitors, s1) \<Rightarrow>
          (case dispatch (brightness_method meta v no_return) monitors ([], []) s1 of
             ((output, errors), s2) \<Rightarrow>
               (if output \<noteq> [] \<and> \<not> list_all (\<lambda>i. i = BNone) output
                then (Inr (single_or_several (flatten_list output)), s2)
                else (Inl (Exn Exception (failure_message errors)), s2))))"

text \<open>
  \<^verbatim>\<open>set_brightness(value, display, method, no_return=...)\<close> and
  \<^verbatim>\<open>get_brightness(display, method)\<close>.
\<close>

definition set_brightness ::
  "int \<Rightarrow> display_arg \<Rightarrow> string option \<Rightarrow> bool \<Rightarrow> system \<Rightarrow> (exn + result) \<times> system" where
  "set_brightness v display method_arg no_return s =
     set_and_get_brightness Set v no_return display method_arg s"

definition get_brightness ::
  "display_arg \<Rightarrow> string option \<Rightarrow> system \<Rightarrow> (exn + result) \<times> system" where
  "get_brightness display method_arg s =
     set_and_get_brightness Get 0 False display method_arg s"

subsection \<open>What the loop over the monitors observes\<close>

text \<open>
  The results of the successive per-monitor calls of the loop in
  \<^verbatim>\<open>__set_and_get_brightness\<close>, each call made in the state the previous one left: \<open>Inl\<close> for a
  call that raised. \<open>slot\<close> is what the loop appends to \<^verbatim>\<open>output\<close> for a result and
  \<open>failures\<close> what it appends to \<^verbatim>\<open>errors\<close>. They are used to state the theorems about
  \<open>dispatch\<close>.
\<close>

fun call_outcomes ::
  "(info \<Rightarrow> system \<Rightarrow> (exn + bval) \<times> system) \<Rightarrow> info list \<Rightarrow> system \<Rightarrow> (exn + bval) list" where
  "call_outcomes call [] s = []"
| "call_outcomes call (m # monitors) s =
     fst (call m s) # call_outcomes call monitors (snd (call m s))"

fun slot :: "exn + bval \<Rightarrow> bval" where
  "slot (Inl e) = BNone"
| "slot (Inr v) = v"

fun failures :: "info list \<Rightarrow> (exn + bval) list \<Rightarrow> error_entry list" where
  "failures (m # monitors) (Inl e # outcomes) = record_error m e # failures monitors outcomes"
| "failures (m # monitors) (Inr v # outcomes) = failures monitors outcomes"
| "failures monitors outcomes = []"

section \<open>Example machines\<close>

text \<open>
  Concrete states on which the theorems below are evaluated. \<open>brand_table\<close> is a brand
  lookup that knows one manufacturer, under its code and under its capitalised name.
\<close>

definition brand_table :: "string \<Rightarrow> (string \<times> string) option" where
  "brand_table key =
     (if key = ''BNQ'' \<or> key = ''Benq'' then Some (''BNQ'', ''BenQ'') else None)"

definition instance_path :: "string \<Rightarrow> string \<Rightarrow> string" where
  "instance_path model_code uid = ''DISPLAY'' @ [CHR 0x5C] @ model_code @ [CHR 0x5C] @ uid"

text \<open>
  A laptop: one monitor that both channels see, with the same identity block; nothing is
  cached yet.
\<close>

definition laptop_panel :: wmi_monitor where
  "laptop_panel =
     \<lparr>InstanceName = instance_path ''BNQ78A7'' ''UID256'', CurrentBrightness = 40,
      WmiSetBrightness_raises = False\<rparr>"

definition laptop_panel_id :: wmi_monitor_id where
  "laptop_panel_id =
     \<lparr>id_InstanceName = instance_path ''BNQ78A7'' ''UID256'',
      SerialNumberID = Some ''SN1'', UserFriendlyName = Some ''BenQ GL2450H''\<rparr>"

definition laptop :: system where
  "laptop =
     \<lparr>c_wmi_instance = False, c_wmi_monitor_info = None, c_vcp_monitor_info = None,
      c_windows_monitors_info = Map.empty, c_brightness = Map.empty,
      wmi_raises = (\<lambda>c. False),
      wmi_monitors = [laptop_panel],
      wmi_descriptors = [(instance_path ''BNQ78A7'' ''UID256'', Some [0, 255, 16])],
      sorted_monitor_ids = Some [laptop_panel_id],
      win32api_raises = False, monitor_brand_lookup = brand_table,
      EnumDisplayMonitors = Some [Physical [7]], vcp_feature = [7 \<mapsto> 40],
      acquired = [], destroyed = []\<rparr>"

text \<open>
  A desktop: \<^verbatim>\<open>WmiMonitorBrightness()\<close> raises, as it does where no monitor supports the
  management API's brightness class; two external monitors with different identity
  blocks, the first from a manufacturer the brand lookup does not know.
\<close>

definition desktop :: system where
  "desktop =
     \<lparr>c_wmi_instance = False, c_wmi_monitor_info = None, c_vcp_monitor_info = None,
      c_windows_monitors_info = Map.empty, c_brightness = Map.empty,
      wmi_raises = (\<lambda>c. c = WmiMonitorBrightness),
      wmi_monitors = [],
      wmi_descriptors =
        [(instance_path ''DEL4321'' ''UID1'', Some [0, 255, 1]),
         (instance_path ''BNQ78A7'' ''UID2'', Some [0, 255, 2])],
      sorted_monitor_ids =
        Some [\<lparr>id_InstanceName = instance_path ''DEL4321'' ''UID1'',
               SerialNumberID = Some ''SN1'', UserFriendlyName = Some ''DELL U2211H''\<rparr>,
              \<lparr>id_InstanceName = instance_path ''BNQ78A7'' ''UID2'',
               SerialNumberID = Some ''SN2'', UserFriendlyName = Some ''BenQ GL2450H''\<rparr>],
      win32api_raises = False, monitor_brand_lookup = brand_table,
      EnumDisplayMonitors = Some [Physical [3], Physical [4]],
      vcp_feature = [3 \<mapsto> 80, 4 \<mapsto> 60],
      acquired = [], destroyed = []\<rparr>"

text \<open>The records the two channels build on these machines.\<close>

definition laptop_wmi :: info where
  "laptop_wmi =
     \<lparr>name = ''BenQ BNQ78A7'', model = ''BNQ78A7'', model_name = None, serial = ''UID256'',
      manufacturer = Some ''BenQ'', manufacturer_id = Some ''BNQ'', index = 0, method = WMI,
      edid = Some ''0ff10''\<rparr>"

definition laptop_vcp :: info where
  "laptop_vcp =
     \<lparr>name = ''BenQ GL2450H'', model = ''GL2450H'', model_name = None, serial = ''SN1'',
      manufacturer = Some ''BenQ'', manufacturer_id = Some ''BNQ'', index = 0, method = VCP,
      edid = Some ''0ff10''\<rparr>"

definition desktop_dell :: info where
  "desktop_dell =
     \<lparr>name = ''Dell U2211H'', model = ''U2211H'', model_name = None, serial = ''SN1'',
      manufacturer = Some ''Dell'', manufacturer_id = None, index = 0, method = VCP,
      edid = Some ''0ff1''\<rparr>"

definition desktop_benq :: info where
  "desktop_benq =
     \<lparr>name = ''BenQ GL2450H'', model = ''GL2450H'', model_name = None, serial = ''SN2'',
      manufacturer = Some ''BenQ'', manufacturer_id = Some ''BNQ'', index = 1, method = VCP,
      edid = Some ''0ff2''\<rparr>"

text \<open>
  Variants: the desktop whose management API answers every call, with no monitor under
  \<^verbatim>\<open>WmiMonitorBrightness()\<close> and no identity block objects, so that no record gets an identity
  block; the laptop whose \<^verbatim>\<open>WmiMonitorDescriptorMethods()\<close> raises; the laptop with a brand lookup
  that knows no manufacturer.
\<close>

definition office_pc :: system where
  "office_pc = desktop\<lparr>wmi_raises := (\<lambda>c. False), wmi_descriptors := []\<rparr>"


definition unbranded_laptop :: system where
  "unbranded_laptop = laptop\<lparr>monitor_brand_lookup := (\<lambda>key. None)\<rparr>"

definition dell_no_edid :: info where
  "dell_no_edid = desktop_dell\<lparr>edid := None\<rparr>"

definition benq_no_edid :: info where
  "benq_no_edid = desktop_benq\<lparr>edid := None\<rparr>"

text \<open>
  The desktop whose second monitor does not answer the feature read, and the laptop whose
  \<^verbatim>\<open>WmiMonitorBrightnessMethods()\<close> raises, so that no brightness can be set.
\<close>

definition desktop_one_ddc :: system where
  "desktop_one_ddc = desktop\<lparr>vcp_feature := [3 \<mapsto> 80]\<rparr>"

definition laptop_locked :: system where
  "laptop_locked = laptop\<lparr>wmi_raises := (\<lambda>c. c = WmiMonitorBrightnessMethods)\<rparr>"

section \<open>Facts about the merge loop\<close>

lemma report_once_filter:
  "filter (\<lambda>i. edid i = b) (fst (foldl report_once (info, map edid info) xs)) =
     (if b \<in> edid ` set info then filter (\<lambda>i. edid i = b) info
      else take 1 (filter (\<lambda>i. edid i = b) xs))"
proof (induction xs arbitrary: info)
  case Nil
  then show ?case by (auto simp: filter_empty_conv)
next
  case (Cons x xs)
  show ?case
  proof (cases "edid x \<in> edid ` set info")
    case True
    then have "report_once (info, map edid info) x = (info, map edid info)"
      by (simp add: report_once_def)
    with Cons [of info] True show ?thesis by auto
  next
    case False
    then have "report_once (info, map edid info) x = (info @ [x], map edid (info @ [x]))"
      by (simp add: report_once_def)
    with Cons [of "info @ [x]"] False show ?thesis
      by (auto simp: filter_empty_conv image_iff)
  qed
qed

lemma report_once_first:
  "filter (\<lambda>i. edid i = b) (fst (foldl report_once ([], []) xs)) =
     take 1 (filter (\<lambda>i. edid i = b) xs)"
  using report_once_filter [of b "[]" xs] by simp


lemma merge_methods_all:
  "fst (merge_methods [WMI, VCP] acc s) =
     foldl report_once acc
       (fst (WMI_get_display_info s) @
        fst (VCP_get_display_info (snd (WMI_get_display_info s))))"
  by (simp split: prod.splits)

lemma list_monitors_info_miss:
  "c_windows_monitors_info s None = None \<Longrightarrow>
   fst (list_monitors_info None s) =
     Inr (fst (foldl report_once ([], [])
       (fst (WMI_get_display_info s) @
        fst (VCP_get_display_info (snd (WMI_get_display_info s))))))"
  using merge_methods_all [of "([], [])" s]
  by (cases "merge_methods [WMI, VCP] ([], []) s")
     (auto simp: list_monitors_info_def simp del: merge_methods.simps split: prod.splits)

section \<open>Merging the two channels\<close>

lemma laptop_channels:
  "fst (WMI_get_display_info laptop) = [laptop_wmi]"
  "fst (VCP_get_display_info (snd (WMI_get_display_info laptop))) = [laptop_vcp]"
  by code_simp+

text \<open>
  Claim C1. \<^verbatim>\<open>list_monitors_info()\<close> without a method, when it computes the list (nothing
  cached under \<^verbatim>\<open>'windows_monitors_info'\<close>): if the WMI list and the VCP list each hold one
  record with the non-null identity block \<open>b\<close>, the merged list holds exactly one record
  with that block, and it is the WMI record, the first one seen.
\<close>

theorem first_identity_block_wins:
  assumes "c_windows_monitors_info s None = None"
    and "filter (\<lambda>i. edid i = Some b) (fst (WMI_get_display_info s)) = [ra]"
    and "filter (\<lambda>i. edid i = Some b)
           (fst (VCP_get_display_info (snd (WMI_get_display_info s)))) = [rb]"
  shows "\<exists>merged. fst (list_monitors_info None s) = Inr merged \<and>
           filter (\<lambda>i. edid i = Some b) merged = [ra]"
  using assms by (simp add: list_monitors_info_miss report_once_first del: foldl_append)

theorem first_identity_block_wins_witness:
  "c_windows_monitors_info laptop None = None \<and>
   filter (\<lambda>i. edid i = Some ''0ff10'') (fst (WMI_get_display_info laptop)) = [laptop_wmi] \<and>
   filter (\<lambda>i. edid i = Some ''0ff10'')
     (fst (VCP_get_display_info (snd (WMI_get_display_info laptop)))) = [laptop_vcp] \<and>
   (\<exists>merged. fst (list_monitors_info None laptop) = Inr merged \<and>
      filter (\<lambda>i. edid i = Some ''0ff10'') merged = [laptop_wmi])"
proof -
  have h1: "c_windows_monitors_info laptop None = None"
    by (simp add: laptop_def)
  have h2: "filter (\<lambda>i. edid i = Some ''0ff10'') (fst (WMI_get_display_info laptop))
              = [laptop_wmi]"
    by (simp add: laptop_channels laptop_wmi_def)
  have h3: "filter (\<lambda>i. edid i = Some ''0ff10'')
              (fst (VCP_get_display_info (snd (WMI_get_display_info laptop)))) = [laptop_vcp]"
    by (simp add: laptop_channels laptop_vcp_def)
  from first_identity_block_wins [OF h1 h2 h3] h1 h2 h3 show ?thesis by blast
qed

text \<open>
  Claim C2. No record with a null identity block is removed by the merge of
  \<^verbatim>\<open>list_monitors_info\<close>. The code does not keep to it: the loop tests
  \<^verbatim>\<open>i['edid'] not in edids\<close> whatever the value, so after the first record without a block
  \<^verbatim>\<open>None\<close> is in \<^verbatim>\<open>edids\<close> and every later record without a block is dropped. On \<open>office_pc\<close>
  \<^verbatim>\<open>VCP.get_display_info\<close> detects two different monitors, with the serial numbers
  \<^verbatim>\<open>SN1\<close> and \<^verbatim>\<open>SN2\<close> and no identity block, and \<^verbatim>\<open>list_monitors_info()\<close>, which its docstring
  says lists all detected monitors, returns the first one only.
\<close>

theorem null_identity_block_record_dropped:
  "edid dell_no_edid = None \<and> edid benq_no_edid = None \<and>
   serial dell_no_edid = ''SN1'' \<and> serial benq_no_edid = ''SN2'' \<and>
   fst (WMI_get_display_info office_pc) = [] \<and>
   fst (VCP_get_display_info (snd (WMI_get_display_info office_pc)))
     = [dell_no_edid, benq_no_edid] \<and>
   fst (list_monitors_info None office_pc) = Inr [dell_no_edid] \<and>
   fst (list_monitors None office_pc) = Inr [''Dell U2211H'']"
  by code_simp

section \<open>A failing Channel A\<close>







section \<open>A manufacturer the brand lookup does not know\<close>

text \<open>
  Claim C8 says that a failing brand lookup leaves both \<^verbatim>\<open>manufacturer\<close> and
  \<^verbatim>\<open>manufacturer_id\<close> null in both channels. Each channel leaves one of the two null and
  keeps what it read from the monitor in the other: on \<open>unbranded_laptop\<close> the WMI record has
  the manufacturer id \<^verbatim>\<open>BNQ\<close> and the VCP record the manufacturer \<^verbatim>\<open>Benq\<close>.
\<close>

theorem unknown_brand_counterexample:
  "monitor_brand_lookup unbranded_laptop ''BNQ'' = None \<and>
   monitor_brand_lookup unbranded_laptop ''Benq'' = None \<and>
   map manufacturer_id (fst (WMI_get_display_info unbranded_laptop)) = [Some ''BNQ''] \<and>
   map manufacturer (fst (VCP_get_display_info (snd (WMI_get_display_info unbranded_laptop))))
     = [Some ''Benq'']"
  by code_simp

text \<open>
  Claim C8, amended. When the brand lookup raises for a monitor, both enumeration loops
  still append its record and go on with the next monitor. \<^verbatim>\<open>WMI.get_display_info\<close> leaves
  \<^verbatim>\<open>manufacturer\<close> null and sets \<^verbatim>\<open>manufacturer_id\<close> to the first three characters of the
  model; \<^verbatim>\<open>VCP.get_display_info\<close> leaves \<^verbatim>\<open>manufacturer_id\<close> null and sets \<^verbatim>\<open>manufacturer\<close> to
  the capitalised first word of the friendly name.
\<close>

theorem unknown_brand_fields:
  "(wmi_instance m = Some (serial_a, model_a) \<and> lookup (take 3 model_a) = None \<longrightarrow>
      (\<exists>r. wmi_records lookup ds (m # ms) a = r # wmi_records lookup ds ms (a + 1) \<and>
           manufacturer r = None \<and> manufacturer_id r = Some (take 3 model_a))) \<and>
   (vcp_identity monitor = Some (serial_b, manufacturer_b, model_b) \<and>
    lookup manufacturer_b = None \<longrightarrow>
      (\<exists>r. vcp_records lookup ds (monitor # monitors) a
              = r # vcp_records lookup ds monitors (a + 1) \<and>
           manufacturer r = Some manufacturer_b \<and> manufacturer_id r = None))"
  by (simp add: wmi_record_def vcp_record_def)

theorem unknown_brand_fields_witness:
  "wmi_instance laptop_panel = Some (''UID256'', ''BNQ78A7'') \<and>
   monitor_brand_lookup unbranded_laptop (take 3 ''BNQ78A7'') = None \<and>
   (\<exists>r. wmi_records (monitor_brand_lookup unbranded_laptop) None [laptop_panel] 0
           = r # wmi_records (monitor_brand_lookup unbranded_laptop) None [] (0 + 1) \<and>
        manufacturer r = None \<and> manufacturer_id r = Some (take 3 ''BNQ78A7'')) \<and>
   vcp_identity laptop_panel_id = Some (''SN1'', ''Benq'', ''GL2450H'') \<and>
   monitor_brand_lookup unbranded_laptop ''Benq'' = None \<and>
   (\<exists>r. vcp_records (monitor_brand_lookup unbranded_laptop) None [laptop_panel_id] 0
           = r # vcp_records (monitor_brand_lookup unbranded_laptop) None [] (0 + 1) \<and>
        manufacturer r = Some ''Benq'' \<and> manufacturer_id r = None)"
proof -
  have a: "wmi_instance laptop_panel = Some (''UID256'', ''BNQ78A7'')"
    by code_simp
  have la: "monitor_brand_lookup unbranded_laptop (take 3 ''BNQ78A7'') = None"
    by (simp add: unbranded_laptop_def)
  have b: "vcp_identity laptop_panel_id = Some (''SN1'', ''Benq'', ''GL2450H'')"
    by code_simp
  have lb: "monitor_brand_lookup unbranded_laptop ''Benq'' = None"
    by (simp add: unbranded_laptop_def)
  from unknown_brand_fields
         [of laptop_panel "''UID256''" "''BNQ78A7''" "monitor_brand_lookup unbranded_laptop"
             None "[]" 0 laptop_panel_id "''SN1''" "''Benq''" "''GL2450H''" "[]"]
       a la b lb
  show ?thesis by blast
qed

section \<open>The top level: resolution, dispatch and the aggregate error\<close>

lemma length_call_outcomes [simp]: "length (call_outcomes call monitors s) = length monitors"
  by (induction monitors arbitrary: s) auto

text \<open>The loop appends one slot for each monitor and one error entry for each call that raised.\<close>

lemma dispatch_outcomes:
  "fst (dispatch call monitors (out, errs) s) =
     (out @ map slot (call_outcomes call monitors s),
      errs @ failures monitors (call_outcomes call monitors s))"
proof (induction monitors arbitrary: out errs s)
  case Nil
  then show ?case by simp
next
  case (Cons m monitors)
  obtain r s1 where call: "call m s = (r, s1)" by (cases "call m s")
  show ?case
  proof (cases r)
    case (Inl e)
    with call Cons [of "out @ [BNone]" "errs @ [record_error m e]" s1]
    show ?thesis by simp
  next
    case (Inr v)
    with call Cons [of "out @ [v]" errs s1]
    show ?thesis by simp
  qed
qed

lemma failures_all:
  "length outcomes = length monitors \<Longrightarrow> \<forall>r \<in> set outcomes. isl r \<Longrightarrow>
   failures monitors outcomes = map2 record_error monitors (map projl outcomes)"
proof (induction monitors arbitrary: outcomes)
  case Nil
  then show ?case by simp
next
  case (Cons m monitors)
  then obtain r rest where o: "outcomes = r # rest" by (cases outcomes) auto
  with Cons.prems obtain e where "r = Inl e" by (auto simp: isl_def)
  with o Cons show ?case by simp
qed

lemma slots_all_failed:
  "\<forall>r \<in> set outcomes. isl r \<Longrightarrow> list_all (\<lambda>i. i = BNone) (map slot outcomes)"
  by (induction outcomes) (auto simp: isl_def)

lemma error_line_not_empty: "error_line e \<noteq> []"
  by (cases e) (simp add: error_line_def)

lemma failure_message_lines:
  "errors \<noteq> [] \<Longrightarrow> failure_message errors = CHR 0x0A # concat (map error_line errors)"
  by (cases errors) (auto simp: failure_message_def Let_def error_line_not_empty)

lemma set_and_get_brightness_outcomes:
  assumes "fst (filter_monitors display None method_arg s) = Inr monitors"
  shows "fst (set_and_get_brightness meta v no_return display method_arg s) =
     (let outcomes = call_outcomes (brightness_method meta v no_return) monitors
                       (snd (filter_monitors display None method_arg s));
          output = map slot outcomes
      in if output \<noteq> [] \<and> \<not> list_all (\<lambda>i. i = BNone) output
         then Inr (single_or_several (flatten_list output))
         else Inl (Exn Exception (failure_message (failures monitors outcomes))))"
proof -
  obtain s1 where f: "filter_monitors display None method_arg s = (Inr monitors, s1)"
    using assms by (cases "filter_monitors display None method_arg s") auto
  obtain out errs s2 where
    d: "dispatch (brightness_method meta v no_return) monitors ([], []) s1 = ((out, errs), s2)"
    by (metis surj_pair)
  from dispatch_outcomes [of "brightness_method meta v no_return" monitors "[]" "[]" s1] d
  have "out = map slot (call_outcomes (brightness_method meta v no_return) monitors s1)"
    and "errs = failures monitors (call_outcomes (brightness_method meta v no_return) monitors s1)"
    by simp_all
  with f d show ?thesis
    by (simp add: set_and_get_brightness_def Let_def)
qed

text \<open>
  Claim C5. \<^verbatim>\<open>set_brightness\<close> and \<^verbatim>\<open>get_brightness\<close> are \<^verbatim>\<open>__set_and_get_brightness\<close> with
  \<^verbatim>\<open>meta_method\<close> \<^verbatim>\<open>'set'\<close> and \<^verbatim>\<open>'get'\<close>. When the monitors are resolved and every per-monitor
  call raises, the operation raises one \<^verbatim>\<open>Exception\<close>. Its message is built from one entry
  for each monitor, in the order of the monitors: the monitor's \<^verbatim>\<open>name (serial)\<close>, the type
  name of the exception its call raised, and that exception; the message is a line break
  followed by one line for each entry.
\<close>

theorem all_calls_fail:
  assumes "fst (filter_monitors display None method_arg s) = Inr monitors"
    and "outcomes = call_outcomes (brightness_method meta v no_return) monitors
                      (snd (filter_monitors display None method_arg s))"
    and "\<forall>r \<in> set outcomes. isl r"
  shows "fst (set_and_get_brightness meta v no_return display method_arg s) =
           Inl (Exn Exception
                  (failure_message (map2 record_error monitors (map projl outcomes)))) \<and>
         length (map2 record_error monitors (map projl outcomes)) = length monitors \<and>
         (monitors \<noteq> [] \<longrightarrow>
            failure_message (map2 record_error monitors (map projl outcomes)) =
              CHR 0x0A #
              concat (map error_line (map2 record_error monitors (map projl outcomes))))"
proof -
  let ?raised = "map projl outcomes"
  have len: "length ?raised = length monitors" using assms(2) by simp
  have errs: "failures monitors outcomes = map2 record_error monitors ?raised"
    using assms(2,3) by (intro failures_all) simp_all
  have none: "list_all (\<lambda>i. i = BNone) (map slot outcomes)"
    using assms(3) by (rule slots_all_failed)
  have res: "fst (set_and_get_brightness meta v no_return display method_arg s) =
             Inl (Exn Exception (failure_message (map2 record_error monitors ?raised)))"
    using set_and_get_brightness_outcomes [OF assms(1), of meta v no_return] none errs assms(2)
    by (simp add: Let_def)
  have cnt: "length (map2 record_error monitors ?raised) = length monitors"
    using len by simp
  have msg: "monitors \<noteq> [] \<longrightarrow>
              failure_message (map2 record_error monitors ?raised) =
                CHR 0x0A # concat (map error_line (map2 record_error monitors ?raised))"
  proof
    assume "monitors \<noteq> []"
    with cnt have "map2 record_error monitors ?raised \<noteq> []"
      by (metis length_0_conv)
    then show "failure_message (map2 record_error monitors ?raised) =
                CHR 0x0A # concat (map error_line (map2 record_error monitors ?raised))"
      by (rule failure_message_lines)
  qed
  from res cnt msg show ?thesis by blast
qed

theorem all_calls_fail_witness:
  "fst (filter_monitors NoDisplay None None laptop_locked) = Inr [laptop_wmi] \<and>
   call_outcomes (brightness_method Set 75 False) [laptop_wmi]
     (snd (filter_monitors NoDisplay None None laptop_locked)) = [Inl (Exn x_wmi [])] \<and>
   fst (set_and_get_brightness Set 75 False NoDisplay None laptop_locked) =
     Inl (Exn Exception
           (failure_message (map2 record_error [laptop_wmi] (map projl [Inl (Exn x_wmi [])])))) \<and>
   map2 record_error [laptop_wmi] (map projl [Inl (Exn x_wmi [])])
     = [(''BenQ BNQ78A7 (UID256)'', ''x_wmi'', Exn x_wmi [])] \<and>
   fst (set_brightness 75 NoDisplay None False laptop_locked) =
     Inl (Exn Exception
            (CHR 0x0A # CHR 0x09 # ''BenQ BNQ78A7 (UID256) -> x_wmi: '' @ [CHR 0x0A]))"
proof -
  have h1: "fst (filter_monitors NoDisplay None None laptop_locked) = Inr [laptop_wmi]"
    by code_simp
  have o: "[Inl (Exn x_wmi [])] = call_outcomes (brightness_method Set 75 False) [laptop_wmi]
     (snd (filter_monitors NoDisplay None None laptop_locked))"
    by code_simp
  have h3: "\<forall>r \<in> set [Inl (Exn x_wmi []) :: exn + bval]. isl r"
    by simp
  have e: "map2 record_error [laptop_wmi] (map projl [Inl (Exn x_wmi []) :: exn + bval])
     = [(''BenQ BNQ78A7 (UID256)'', ''x_wmi'', Exn x_wmi [])]"
    by (simp add: record_error_def laptop_wmi_def)
  have v: "fst (set_brightness 75 NoDisplay None False laptop_locked) =
     Inl (Exn Exception
            (CHR 0x0A # CHR 0x09 # ''BenQ BNQ78A7 (UID256) -> x_wmi: '' @ [CHR 0x0A]))"
    by code_simp
  from all_calls_fail [OF h1 o h3] h1 o [symmetric] e v show ?thesis by simp
qed

lemma flatten_list_keeps_none:
  "length (filter (\<lambda>x. x = None) (flatten_list out)) = length (filter (\<lambda>i. i = BNone) out)"
proof (induction out)
  case Nil
  then show ?case by (simp add: flatten_list_def)
next
  case (Cons i out)
  then show ?case by (cases i) (auto simp: flatten_list_def filter_empty_conv)
qed

lemma some_slot:
  "(\<exists>r \<in> set outcomes. slot r \<noteq> BNone) \<longleftrightarrow>
   (map slot outcomes \<noteq> [] \<and> \<not> list_all (\<lambda>i. i = BNone) (map slot outcomes))"
  by (induction outcomes) auto

lemma single_or_several_if:
  "single_or_several flat = (if length flat = 1 then Single (flat ! 0) else Several flat)"
  by (cases flat; cases "tl flat") (auto simp: single_or_several_def)

text \<open>
  Claim C7. When \<^verbatim>\<open>get_brightness\<close> resolves the monitors and at least one per-monitor call
  gives a result other than \<^verbatim>\<open>None\<close>, the collected results (one slot for each monitor, a
  \<^verbatim>\<open>None\<close> slot for a call that raised or returned \<^verbatim>\<open>None\<close>) are flattened, every \<^verbatim>\<open>None\<close> slot
  staying one \<^verbatim>\<open>None\<close> element, and the operation returns the single element when exactly one
  remains and the list otherwise.
\<close>

theorem get_brightness_collects:
  assumes "fst (filter_monitors display None method_arg s) = Inr monitors"
    and "outcomes = call_outcomes (brightness_method Get 0 False) monitors
                      (snd (filter_monitors display None method_arg s))"
    and "flat = flatten_list (map slot outcomes)"
    and "\<exists>r \<in> set outcomes. slot r \<noteq> BNone"
  shows "fst (get_brightness display method_arg s) =
           Inr (if length flat = 1 then Single (flat ! 0) else Several flat) \<and>
         length (map slot outcomes) = length monitors \<and>
         length (filter (\<lambda>x. x = None) flat) = length (filter (\<lambda>r. slot r = BNone) outcomes)"
proof -
  have "map slot outcomes \<noteq> [] \<and> \<not> list_all (\<lambda>i. i = BNone) (map slot outcomes)"
    using assms(4) by (rule some_slot [THEN iffD1])
  with set_and_get_brightness_outcomes [OF assms(1), of Get 0 False] assms(2,3)
  have "fst (get_brightness display method_arg s) = Inr (single_or_several flat)"
    by (simp add: get_brightness_def Let_def)
  moreover have "length (map slot outcomes) = length monitors"
    using assms(2) by simp
  moreover have "length (filter (\<lambda>x. x = None) flat) =
                 length (filter (\<lambda>r. slot r = BNone) outcomes)"
    using flatten_list_keeps_none [of "map slot outcomes"] assms(3)
    by (simp add: filter_map comp_def)
  ultimately show ?thesis by (simp add: single_or_several_if)
qed

theorem get_brightness_collects_witness:
  "fst (filter_monitors NoDisplay None None desktop_one_ddc) = Inr [desktop_dell, desktop_benq] \<and>
   call_outcomes (brightness_method Get 0 False) [desktop_dell, desktop_benq]
     (snd (filter_monitors NoDisplay None None desktop_one_ddc)) = [Inr (BInt 80), Inr BNone] \<and>
   flatten_list (map slot [Inr (BInt 80), Inr BNone]) = [Some 80, None] \<and>
   slot (Inr (BInt 80)) \<noteq> BNone \<and>
   fst (get_brightness NoDisplay None desktop_one_ddc) = Inr (Several [Some 80, None])"
proof -
  have h1: "fst (filter_monitors NoDisplay None None desktop_one_ddc)
              = Inr [desktop_dell, desktop_benq]"
    by code_simp
  have h2: "[Inr (BInt 80), Inr BNone] =
     call_outcomes (brightness_method Get 0 False) [desktop_dell, desktop_benq]
       (snd (filter_monitors NoDisplay None None desktop_one_ddc))"
    by code_simp
  have h3: "[Some 80, None] = flatten_list (map slot [Inr (BInt 80), Inr BNone])"
    by (simp add: flatten_list_def)
  have h4: "\<exists>r \<in> set [Inr (BInt 80), Inr BNone]. slot r \<noteq> BNone"
    by simp
  from get_brightness_collects [OF h1 h2 h3 h4] h1 h2 [symmetric] h3 [symmetric]
  show ?thesis by simp
qed

text \<open>
  Whatever \<^verbatim>\<open>filter_monitors\<close> raises, the top level raises \<^verbatim>\<open>Exception\<close> with a message of
  one line.
\<close>

lemma resolution_failure_is_wrapped:
  "fst (filter_monitors display None method_arg s) = Inl e \<Longrightarrow>
   fst (set_and_get_brightness meta v no_return display method_arg s) =
     Inl (Exn Exception (failure_message [([], type_name (exn_type e), e)]))"
  by (cases "filter_monitors display None method_arg s")
     (auto simp: set_and_get_brightness_def)

text \<open>
  Claim C3 says that a string query matching no record makes \<^verbatim>\<open>set_brightness\<close> raise the
  \<^verbatim>\<open>LookupError\<close> of the resolution step itself, as the docstring of \<^verbatim>\<open>set_brightness\<close> also
  announces. The code catches every exception of \<^verbatim>\<open>filter_monitors\<close>, records it with an
  empty label, and raises the aggregate \<^verbatim>\<open>Exception\<close> of the dispatch failure: on the laptop,
  \<^verbatim>\<open>set_brightness(50, display='nonexistent-serial-XYZ')\<close> fails in \<^verbatim>\<open>filter_monitors\<close> with
  \<^verbatim>\<open>LookupError\<close> and raises an \<^verbatim>\<open>Exception\<close> whose message has the one line
  \<^verbatim>\<open> -> LookupError: ...\<close>.
\<close>

theorem lookup_error_is_wrapped:
  "fst (filter_monitors (StrDisplay ''nonexistent-serial-XYZ'') None None laptop)
     = Inl (Exn LookupError ''display not found'') \<and>
   fst (set_brightness 50 (StrDisplay ''nonexistent-serial-XYZ'') None False laptop)
     = Inl (Exn Exception
              (CHR 0x0A # CHR 0x09 # '' -> LookupError: display not found'' @ [CHR 0x0A]))"
  by code_simp

text \<open>
  Claim C6 says that \<^verbatim>\<open>set_brightness\<close> with \<^verbatim>\<open>no_return\<close> returns \<^verbatim>\<open>None\<close> and does not raise
  when a monitor's set call succeeds. With \<^verbatim>\<open>no_return\<close> every per-monitor call returns
  \<^verbatim>\<open>None\<close>, so \<^verbatim>\<open>all(i==None for i in output)\<close> holds and the code falls through to
  \<^verbatim>\<open>raise Exception(msg)\<close>: on the laptop \<^verbatim>\<open>set_brightness(55, no_return=True)\<close> changes the
  brightness from 40 to 55 and raises.
\<close>

theorem no_return_raises:
  "fst (set_brightness 55 NoDisplay None True laptop)
     = Inl (Exn Exception
              (CHR 0x0A # CHR 0x09 # ''no valid output was received from brightness methods'')) \<and>
   map CurrentBrightness (wmi_monitors laptop) = [40] \<and>
   map CurrentBrightness (wmi_monitors (snd (set_brightness 55 NoDisplay None True laptop))) = [55]"
  by code_simp

lemma WMI_set_brightness_no_return:
  "fst (WMI_set_brightness v display True s) = Inr r \<Longrightarrow> r = BNone"
  by (auto simp: WMI_set_brightness_def split: prod.splits sum.splits if_splits)

lemma VCP_set_brightness_no_return:
  "fst (VCP_set_brightness v display True s) = Inr r \<Longrightarrow> r = BNone"
  by (auto simp: VCP_set_brightness_def split: prod.splits sum.splits if_splits)

lemma brightness_method_no_return:
  "slot (fst (brightness_method Set v True m s)) = BNone"
proof (cases "fst (brightness_method Set v True m s)")
  case (Inl e)
  then show ?thesis by simp
next
  case (Inr r)
  then have "r = BNone"
    by (cases "method m")
       (auto dest: WMI_set_brightness_no_return VCP_set_brightness_no_return)
  with Inr show ?thesis by simp
qed

lemma call_outcomes_no_return:
  "list_all (\<lambda>i. i = BNone) (map slot (call_outcomes (brightness_method Set v True) monitors s))"
  by (induction monitors arbitrary: s)
     (auto simp: brightness_method_no_return simp del: brightness_method.simps)

text \<open>With \<^verbatim>\<open>no_return\<close>, \<^verbatim>\<open>set_brightness\<close> raises on every machine and for every query.\<close>

lemma set_brightness_no_return_always_raises:
  "\<exists>msg. fst (set_brightness v display method_arg True s) = Inl (Exn Exception msg)"
proof (cases "fst (filter_monitors display None method_arg s)")
  case (Inl e)
  then show ?thesis
    by (simp add: set_brightness_def resolution_failure_is_wrapped)
next
  case (Inr monitors)
  from set_and_get_brightness_outcomes [OF Inr, of Set v True]
       call_outcomes_no_return [of v monitors "snd (filter_monitors display None method_arg s)"]
  show ?thesis by (simp add: set_brightness_def Let_def)
qed

section \<open>The generator and its handles\<close>

lemma run_to_yield_pending:
  assumes "run_to_yield items ms s = (ev, g', s')"
  shows "vcp_feature s' = vcp_feature s \<and> destroyed s' = destroyed s \<and>
         (case items @ yielded_handles ms of
            [] \<Rightarrow> (\<forall>h. ev \<noteq> Yield h)
          | h # rest \<Rightarrow> ev = Yield h \<and> (\<forall>s''. pending g' s'' = rest))"
  using assms
  by (induction items ms s rule: run_to_yield.induct) (auto split: list.splits)

lemma gen_next_pending:
  assumes "gen_next g s = (ev, g', s')"
  shows "vcp_feature s' = vcp_feature s \<and>
         (case pending g s of
            [] \<Rightarrow> (\<forall>h. ev \<noteq> Yield h)
          | h # rest \<Rightarrow> ev = Yield h \<and> (\<forall>s''. pending g' s'' = rest))"
proof (cases g)
  case NotStarted
  show ?thesis
  proof (cases "EnumDisplayMonitors s")
    case None
    with NotStarted assms show ?thesis by auto
  next
    case (Some ms)
    with NotStarted assms have "run_to_yield [] ms s = (ev, g', s')" by simp
    from run_to_yield_pending [OF this] NotStarted Some show ?thesis by simp
  qed
next
  case (Suspended h0 items ms)
  with assms have "run_to_yield items ms (s\<lparr>destroyed := destroyed s @ [h0]\<rparr>) = (ev, g', s')"
    by simp
  from run_to_yield_pending [OF this] Suspended show ?thesis by simp
next
  case Finished
  with assms show ?thesis by auto
qed

text \<open>
  A loop whose body raises at the first monitor that answers the feature read, and goes on
  at the others, raises as soon as one of the pending monitors answers.
\<close>

lemma loop_reaches_readable_monitor:
  assumes throws: "\<And>m acc s. vcp_feature s m \<noteq> None \<Longrightarrow> body m acc s = (Throw e, s)"
    and skips: "\<And>m acc s. vcp_feature s m = None \<Longrightarrow> \<exists>acc'. body m acc s = (Continue acc', s)"
    and "\<exists>m \<in> set (pending g s). vcp_feature s m \<noteq> None"
  shows "fst (for_physical_monitors body g acc s) = Inl e"
  using assms
proof (induction body g acc s rule: for_physical_monitors.induct)
  case (1 body g acc s)
  obtain ev g1 s1 where step: "gen_next g s = (ev, g1, s1)"
    by (metis surj_pair)
  from "1.prems"(3) obtain h rest where p: "pending g s = h # rest"
    by (cases "pending g s") auto
  from gen_next_pending [OF step] p
  have feat: "vcp_feature s1 = vcp_feature s" and ev: "ev = Yield h"
    and rest: "\<And>s''. pending g1 s'' = rest"
    by simp_all
  show ?case
  proof (cases "vcp_feature s h")
    case (Some x)
    with feat have "body h acc s1 = (Throw e, s1)"
      by (intro "1.prems"(1)) simp
    with step ev show ?thesis
      by (subst for_physical_monitors.simps) (simp add: gen_close_def)
  next
    case None
    with feat "1.prems"(2) [of s1 h acc] obtain acc' where b: "body h acc s1 = (Continue acc', s1)"
      by auto
    from None p "1.prems"(3) feat rest have "\<exists>m \<in> set (pending g1 s1). vcp_feature s1 m \<noteq> None"
      by auto
    with "1.IH" [OF step [unfolded ev, symmetric] refl refl b [symmetric] refl "1.prems"(1,2)]
    have "fst (for_physical_monitors body g1 acc' s1) = Inl e"
      by simp
    with step ev b show ?thesis
      by (subst for_physical_monitors.simps) simp
  qed
qed


lemma get_brightness_body_unbound:
  "vcp_feature s m \<noteq> None \<Longrightarrow>
   get_brightness_body NoDisplay None indexes m acc s = (Throw (unbound_local ''all_monitors''), s)"
  "vcp_feature s m = None \<Longrightarrow>
   \<exists>acc'. get_brightness_body NoDisplay None indexes m acc s = (Continue acc', s)"
  by (auto simp: get_brightness_body_def brightness_key_def is_IndexError_def unbound_local_def
           split: prod.splits)

text \<open>
  Claim C10. \<^verbatim>\<open>VCP.get_brightness()\<close> with \<^verbatim>\<open>display=None\<close>: if \<^verbatim>\<open>EnumDisplayMonitors\<close> succeeds
  and the feature read succeeds for one of the monitors the loop is given, the call raises
  \<^verbatim>\<open>UnboundLocalError\<close>, a \<^verbatim>\<open>NameError\<close>, for \<^verbatim>\<open>all_monitors\<close>: the variable is assigned only
  under \<^verbatim>\<open>if display!=None\<close>, the key expression of \<^verbatim>\<open>__cache__.store\<close> reads it, and the handler
  around it is \<^verbatim>\<open>except IndexError\<close>.
\<close>

theorem get_brightness_all_monitors_unbound:
  assumes "EnumDisplayMonitors s = Some monitors"
    and "\<exists>m \<in> set (yielded_handles monitors). vcp_feature s m \<noteq> None"
  shows "fst (VCP_get_brightness NoDisplay s) = Inl (unbound_local ''all_monitors'') \<and>
         is_NameError (unbound_local ''all_monitors'')"
proof -
  from assms have p: "\<exists>m \<in> set (pending NotStarted s). vcp_feature s m \<noteq> None"
    by simp
  have "fst (for_physical_monitors (get_brightness_body NoDisplay None []) NotStarted (0, []) s)
          = Inl (unbound_local ''all_monitors'')"
    by (rule loop_reaches_readable_monitor [OF _ _ p])
       (rule get_brightness_body_unbound, assumption)+
  then show ?thesis
    by (auto simp: VCP_get_brightness_def is_NameError_def unbound_local_def
             split: prod.splits sum.splits)
qed

theorem get_brightness_all_monitors_unbound_witness:
  "EnumDisplayMonitors desktop_one_ddc = Some [Physical [3], Physical [4]] \<and>
   yielded_handles [Physical [3], Physical [4]] = [3, 4] \<and>
   vcp_feature desktop_one_ddc 3 \<noteq> None \<and>
   fst (VCP_get_brightness NoDisplay desktop_one_ddc) = Inl (unbound_local ''all_monitors'') \<and>
   is_NameError (unbound_local ''all_monitors'')"
proof -
  have h1: "EnumDisplayMonitors desktop_one_ddc = Some [Physical [3], Physical [4]]"
    by (simp add: desktop_one_ddc_def desktop_def)
  have y: "yielded_handles [Physical [3], Physical [4]] = [3, 4]"
    by simp
  have f: "vcp_feature desktop_one_ddc 3 \<noteq> None"
    by (simp add: desktop_one_ddc_def)
  have h2: "\<exists>m \<in> set (yielded_handles [Physical [3], Physical [4]]).
              vcp_feature desktop_one_ddc m \<noteq> None"
    using f by simp
  from get_brightness_all_monitors_unbound [OF h1 h2] h1 y f show ?thesis by simp
qed

text \<open>
  Claim C9 says that every handle \<^verbatim>\<open>VCP.iter_physical_monitors\<close> yields is released exactly
  once, also when the iteration is ended early. \<^verbatim>\<open>DestroyPhysicalMonitor\<close> is the statement
  after the \<^verbatim>\<open>yield\<close> and there is no \<^verbatim>\<open>try ... finally\<close>: a loop left at its first item has
  been given handle 7 and the handle is never destroyed. \<^verbatim>\<open>VCP.get_brightness()\<close> leaves its
  loop in this way through the \<^verbatim>\<open>UnboundLocalError\<close> of claim C10.
\<close>

theorem early_exit_leaks_handle:
  "fst (for_physical_monitors stop_at_first NotStarted [] laptop) = Inr [7] \<and>
   acquired (snd (snd (for_physical_monitors stop_at_first NotStarted [] laptop))) = [7] \<and>
   destroyed (snd (snd (for_physical_monitors stop_at_first NotStarted [] laptop))) = [] \<and>
   fst (VCP_get_brightness NoDisplay laptop) = Inl (unbound_local ''all_monitors'') \<and>
   acquired (snd (VCP_get_brightness NoDisplay laptop)) = [7] \<and>
   destroyed (snd (VCP_get_brightness NoDisplay laptop)) = []"
  by code_simp


lemma run_to_yield_held:
  "run_to_yield items ms s = (Yield h, g', s') \<Longrightarrow> held g' = [h]"
  by (induction items ms s rule: run_to_yield.induct) auto

lemma gen_next_destroyed:
  assumes "gen_next g s = (ev, g', s')"
  shows "destroyed s' = destroyed s @ held g \<and> (\<forall>h. ev = Yield h \<longrightarrow> held g' = [h])"
proof (cases g)
  case NotStarted
  show ?thesis
  proof (cases "EnumDisplayMonitors s")
    case None
    with NotStarted assms show ?thesis by auto
  next
    case (Some ms)
    with NotStarted assms have r: "run_to_yield [] ms s = (ev, g', s')" by simp
    from run_to_yield_pending [OF r] run_to_yield_held [of "[]" ms s _ g' s'] r NotStarted
    show ?thesis by auto
  qed
next
  case (Suspended h0 items ms)
  with assms
  have r: "run_to_yield items ms (s\<lparr>destroyed := destroyed s @ [h0]\<rparr>) = (ev, g', s')"
    by simp
  from run_to_yield_pending [OF r]
       run_to_yield_held [of items ms "s\<lparr>destroyed := destroyed s @ [h0]\<rparr>" _ g' s'] r
       Suspended
  show ?thesis by auto
next
  case Finished
  with assms show ?thesis by auto
qed

lemma full_iteration_releases:
  "for_physical_monitors collect_handles g seen s = (Inr seen', g', s') \<Longrightarrow>
   seen' = seen @ pending g s \<and> destroyed s' = destroyed s @ held g @ pending g s"
proof (induction collect_handles g seen s arbitrary: seen' g' s'
       rule: for_physical_monitors.induct)
  case (1 g seen s)
  obtain ev g1 s1 where step: "gen_next g s = (ev, g1, s1)"
    by (metis surj_pair)
  note d = gen_next_destroyed [OF step]
  note p = gen_next_pending [OF step]
  show ?case
  proof (cases "pending g s")
    case Nil
    with p have "\<forall>h. ev \<noteq> Yield h" by simp
    with step "1.prems" d Nil show ?thesis
      by (subst (asm) for_physical_monitors.simps) (auto split: gen_event.splits)
  next
    case (Cons h rest)
    with p have ev: "ev = Yield h" and rest: "\<And>s''. pending g1 s'' = rest" by simp_all
    have b: "collect_handles h seen s1 = (Continue (seen @ [h]), s1)"
      by (simp add: collect_handles_def)
    from "1.prems" step ev b
    have run: "for_physical_monitors collect_handles g1 (seen @ [h]) s1 = (Inr seen', g', s')"
      by (subst (asm) for_physical_monitors.simps) simp
    from "1.hyps" [OF step [unfolded ev, symmetric] refl refl b [symmetric] refl run]
         d ev rest Cons
    show ?thesis by simp
  qed
qed

text \<open>
  A loop that runs until the generator is exhausted releases every handle it was given,
  once and in order.
\<close>

lemma full_iteration_releases_each_handle_once:
  "for_physical_monitors collect_handles NotStarted [] s = (Inr seen, g', s') \<Longrightarrow>
   destroyed s' = destroyed s @ seen"
  using full_iteration_releases [of NotStarted "[]" s seen g' s'] by simp

end
